theory Spec2Isabelle
  imports Main
begin

section \<open>The header \<^verbatim>\<open>src/lib/wycc_lib.h\<close>, line by line\<close>

text \<open>
  The header holds declarations only: a typedef of a struct and five function
  declarations, among comments. There is no function to translate, so the object of
  study is the header itself. It is kept here in two forms: its text, one string per
  source line, and the table of declarations that the text spells out. A scanner for
  the tokens of C connects the two.

  The file ends after the \<^verbatim>\<open>*/\<close> of its last line, with no line break there, so its
  fifty lines are separated by forty-nine line breaks.
\<close>

definition wycc_lib_h_text :: "string list" where
  "wycc_lib_h_text = [
    ''/*'',
    '' * wycc_lib.h'',
    '' *'',
    '' * This is a a header file that describes the'',
    '' * library of support routines for programs written in'',
    '' * the Whiley language when translated into C (ala gcc)'',
    '' *'',
    '' * This file is part of the Whiley Development Kit (WDK).'',
    '' *'',
    '' * The Whiley Development Kit is free software; you can redistribute '',
    '' * it and/or modify it under the terms of the GNU General Public '',
    '' * License as published by the Free Software Foundation; either '',
    '' * version 3 of the License, or (at your option) any later version.'',
    '' *'',
    '' * The Whiley Development Kit is distributed in the hope that it '',
    '' * will be useful, but WITHOUT ANY WARRANTY; without even the '',
    '' * implied warranty of MERCHANTABILITY or FITNESS FOR A PARTICULAR '',
    '' * PURPOSE.  See the GNU General Public License for more details.'',
    '' *'',
    '' * You should have received a copy of the GNU General Public '',
    '' * License along with the Whiley Development Kit. If not, see '',
    '' * <http://www.gnu.org/licenses/>'',
    '' */'',
    '''',
    ''typedef struct Wycc_object {'',
    ''    ;'',
    ''    int typ;'',
    ''    int cnt;'',
    ''    void* ptr;'',
    ''} wycc_obj;'',
    '''',
    ''/*'',
    '' * routines used by wycc for structure and bookkeeping'',
    '' */'',
    ''void wycc_main();'',
    ''// wycc_obj* wyil_obj_str(char* text);'',
    ''wycc_obj* wycc_deref_box(wycc_obj* itm, int flg);'',
    ''wycc_obj* wycc_box_str(char* text);'',
    '''',
    ''/*'',
    '' * routines to implement wyil operations'',
    '' */'',
    ''void wyil_debug_str(char* mesg);'',
    ''void wyil_debug_obj(wycc_obj *ptr);'',
    '''',
    ''/*'',
    '';;; Local Variables: ***'',
    '';;; c-basic-offset: 4 ***'',
    '';;; End: ***'',
    '' */'']"

section \<open>Tokens and the scanner\<close>

text \<open>
  The scanner reads one character at a time. It cuts the text into identifiers and
  single punctuation marks, drops white space, and keeps every comment with its text:
  a block comment from \<^verbatim>\<open>/*\<close> to the next \<^verbatim>\<open>*/\<close>, a line comment from \<^verbatim>\<open>//\<close> to the
  end of the line. The header has no string or character literal and no preprocessor
  line, and the scanner knows none.
\<close>

datatype token =
    Ident string
  | Punct char
  | Comment string
  | Line_comment_text string
  | Unterminated

datatype mode =
    Code
  | In_word string
  | After_slash
  | In_block string
  | In_block_star string
  | In_line string

text \<open>
  The mode is what the scanner remembers between two characters. A word and the text
  of a comment are gathered back to front and turned round when they are complete.
\<close>

definition newline :: char where
  "newline = CHR 0x0A"

definition is_space :: "char \<Rightarrow> bool" where
  "is_space c = (c = CHR '' '' \<or> c = newline \<or> c = CHR 0x09)"

definition ident_char :: "char \<Rightarrow> bool" where
  "ident_char c = List.member
     ''abcdefghijklmnopqrstuvwxyzABCDEFGHIJKLMNOPQRSTUVWXYZ0123456789_'' c"

definition step_code :: "char \<Rightarrow> mode \<times> token list" where
  "step_code c =
     (if c = CHR ''/'' then (After_slash, [])
      else if is_space c then (Code, [])
      else if ident_char c then (In_word [c], [])
      else (Code, [Punct c]))"

fun step :: "mode \<Rightarrow> char \<Rightarrow> mode \<times> token list" where
  "step Code c = step_code c"
| "step (In_word w) c =
     (if ident_char c then (In_word (c # w), [])
      else (fst (step_code c), Ident (rev w) # snd (step_code c)))"
| "step After_slash c =
     (if c = CHR ''*'' then (In_block [], [])
      else if c = CHR ''/'' then (In_line [], [])
      else (fst (step_code c), Punct (CHR ''/'') # snd (step_code c)))"
| "step (In_block b) c =
     (if c = CHR ''*'' then (In_block_star b, []) else (In_block (c # b), []))"
| "step (In_block_star b) c =
     (if c = CHR ''/'' then (Code, [Comment (rev b)])
      else if c = CHR ''*'' then (In_block_star (CHR ''*'' # b), [])
      else (In_block (c # CHR ''*'' # b), []))"
| "step (In_line s) c =
     (if c = newline then (Code, [Line_comment_text (rev s)]) else (In_line (c # s), []))"

text \<open>At the end of the text: a comment still open is reported, a word is closed.\<close>

fun flush :: "mode \<Rightarrow> token list" where
  "flush Code = []"
| "flush (In_word w) = [Ident (rev w)]"
| "flush After_slash = [Punct (CHR ''/'')]"
| "flush (In_block b) = [Unterminated]"
| "flush (In_block_star b) = [Unterminated]"
| "flush (In_line s) = [Line_comment_text (rev s)]"

fun run :: "mode \<Rightarrow> string \<Rightarrow> mode \<times> token list" where
  "run m [] = (m, [])"
| "run m (c # cs) =
     (case step m c of (m', ts) \<Rightarrow>
        (case run m' cs of (m'', ts') \<Rightarrow> (m'', ts @ ts')))"

text \<open>
  The lines are scanned in turn, each with a line break after it, the mode carried from
  one line to the next.
\<close>

fun lex_lines :: "mode \<Rightarrow> string list \<Rightarrow> token list" where
  "lex_lines m [] = flush m"
| "lex_lines m (l # ls) =
     (case run m (l @ [newline]) of (m', ts) \<Rightarrow> ts @ lex_lines m' ls)"

section \<open>The declarations of the header\<close>

text \<open>
  The types the header writes: \<^verbatim>\<open>void\<close>, \<^verbatim>\<open>int\<close>, \<^verbatim>\<open>char\<close>, a typedef name,
  a struct tag, and pointers to these.
\<close>

datatype ctype =
    C_void
  | C_int
  | C_char
  | C_named string
  | C_struct string
  | C_pointer ctype

text \<open>
  A parameter list is either the empty pair of parentheses \<^verbatim>\<open>()\<close>, which gives no
  prototype, or a prototype; \<^verbatim>\<open>(void)\<close> is the prototype with no parameter.
\<close>

datatype params =
    Unspecified
  | Prototype "(ctype \<times> string) list"

text \<open>An entry of a struct body: a field, or a semicolon with nothing before it.\<close>

datatype member =
    Empty_member
  | Field_member ctype string

text \<open>
  What can stand at the top level of the file. A function with \<open>None\<close> for its body is
  a declaration; with \<open>Some b\<close> it is a definition whose body holds the tokens \<open>b\<close>.
\<close>

datatype item =
    Block_comment "string list"
  | Line_comment string
  | Typedef_struct string "member list" string
  | Function ctype string params "token list option"

text \<open>
  The header, item by item in the order of the file. A block comment is kept as the
  lines of text between its \<^verbatim>\<open>/*\<close> and its \<^verbatim>\<open>*/\<close>.
\<close>

definition wycc_lib_h :: "item list" where
  "wycc_lib_h = [
     Block_comment [
       [],
       '' * wycc_lib.h'',
       '' *'',
       '' * This is a a header file that describes the'',
       '' * library of support routines for programs written in'',
       '' * the Whiley language when translated into C (ala gcc)'',
       '' *'',
       '' * This file is part of the Whiley Development Kit (WDK).'',
       '' *'',
       '' * The Whiley Development Kit is free software; you can redistribute '',
       '' * it and/or modify it under the terms of the GNU General Public '',
       '' * License as published by the Free Software Foundation; either '',
       '' * version 3 of the License, or (at your option) any later version.'',
       '' *'',
       '' * The Whiley Development Kit is distributed in the hope that it '',
       '' * will be useful, but WITHOUT ANY WARRANTY; without even the '',
       '' * implied warranty of MERCHANTABILITY or FITNESS FOR A PARTICULAR '',
       '' * PURPOSE.  See the GNU General Public License for more details.'',
       '' *'',
       '' * You should have received a copy of the GNU General Public '',
       '' * License along with the Whiley Development Kit. If not, see '',
       '' * <http://www.gnu.org/licenses/>'',
       '' ''],
     Typedef_struct ''Wycc_object''
       [Empty_member,
        Field_member C_int ''typ'',
        Field_member C_int ''cnt'',
        Field_member (C_pointer C_void) ''ptr'']
       ''wycc_obj'',
     Block_comment [
       [],
       '' * routines used by wycc for structure and bookkeeping'',
       '' ''],
     Function C_void ''wycc_main'' Unspecified None,
     Line_comment '' wycc_obj* wyil_obj_str(char* text);'',
     Function (C_pointer (C_named ''wycc_obj'')) ''wycc_deref_box''
       (Prototype [(C_pointer (C_named ''wycc_obj''), ''itm''), (C_int, ''flg'')]) None,
     Function (C_pointer (C_named ''wycc_obj'')) ''wycc_box_str''
       (Prototype [(C_pointer C_char, ''text'')]) None,
     Block_comment [
       [],
       '' * routines to implement wyil operations'',
       '' ''],
     Function C_void ''wyil_debug_str'' (Prototype [(C_pointer C_char, ''mesg'')]) None,
     Function C_void ''wyil_debug_obj''
       (Prototype [(C_pointer (C_named ''wycc_obj''), ''ptr'')]) None,
     Block_comment [
       [],
       '';;; Local Variables: ***'',
       '';;; c-basic-offset: 4 ***'',
       '';;; End: ***'',
       '' '']]"

subsection \<open>Writing the declarations out as tokens\<close>

fun type_tokens :: "ctype \<Rightarrow> token list" where
  "type_tokens C_void = [Ident ''void'']"
| "type_tokens C_int = [Ident ''int'']"
| "type_tokens C_char = [Ident ''char'']"
| "type_tokens (C_named n) = [Ident n]"
| "type_tokens (C_struct n) = [Ident ''struct'', Ident n]"
| "type_tokens (C_pointer t) = type_tokens t @ [Punct (CHR ''*'')]"

fun param_list_tokens :: "(ctype \<times> string) list \<Rightarrow> token list" where
  "param_list_tokens [] = []"
| "param_list_tokens [(t, n)] = type_tokens t @ [Ident n]"
| "param_list_tokens ((t, n) # p # ps) =
     type_tokens t @ [Ident n, Punct (CHR '','')] @ param_list_tokens (p # ps)"

fun params_tokens :: "params \<Rightarrow> token list" where
  "params_tokens Unspecified = []"
| "params_tokens (Prototype []) = [Ident ''void'']"
| "params_tokens (Prototype (p # ps)) = param_list_tokens (p # ps)"

fun member_tokens :: "member \<Rightarrow> token list" where
  "member_tokens Empty_member = [Punct (CHR '';'')]"
| "member_tokens (Field_member t n) = type_tokens t @ [Ident n, Punct (CHR '';'')]"

fun unlines :: "string list \<Rightarrow> string" where
  "unlines [] = []"
| "unlines [l] = l"
| "unlines (l # k # ls) = l @ newline # unlines (k # ls)"

fun item_tokens :: "item \<Rightarrow> token list" where
  "item_tokens (Block_comment ls) = [Comment (unlines ls)]"
| "item_tokens (Line_comment s) = [Line_comment_text s]"
| "item_tokens (Typedef_struct tag ms name) =
     [Ident ''typedef'', Ident ''struct'', Ident tag, Punct (CHR ''{'')]
     @ concat (map member_tokens ms)
     @ [Punct (CHR ''}''), Ident name, Punct (CHR '';'')]"
| "item_tokens (Function r n ps None) =
     type_tokens r @ [Ident n, Punct (CHR ''('')] @ params_tokens ps
     @ [Punct (CHR '')''), Punct (CHR '';'')]"
| "item_tokens (Function r n ps (Some b)) =
     type_tokens r @ [Ident n, Punct (CHR ''('')] @ params_tokens ps
     @ [Punct (CHR '')''), Punct (CHR ''{'')] @ b @ [Punct (CHR ''}'')]"


section \<open>Reading the table of declarations\<close>

fun function_symbols :: "item list \<Rightarrow> string list" where
  "function_symbols [] = []"
| "function_symbols (Function r n ps b # its) = n # function_symbols its"
| "function_symbols (Block_comment c # its) = function_symbols its"
| "function_symbols (Line_comment c # its) = function_symbols its"
| "function_symbols (Typedef_struct tag ms name # its) = function_symbols its"

text \<open>The return type and the parameter list under which a function name is declared.\<close>

fun declared_signature :: "item list \<Rightarrow> string \<Rightarrow> (ctype \<times> params) option" where
  "declared_signature [] f = None"
| "declared_signature (Function r n ps b # its) f =
     (if n = f then Some (r, ps) else declared_signature its f)"
| "declared_signature (Block_comment c # its) f = declared_signature its f"
| "declared_signature (Line_comment c # its) f = declared_signature its f"
| "declared_signature (Typedef_struct tag ms name # its) f = declared_signature its f"

text \<open>The functions that come with a body, each with the tokens of its body.\<close>

fun function_bodies :: "item list \<Rightarrow> (string \<times> token list) list" where
  "function_bodies [] = []"
| "function_bodies (Function r n ps (Some b) # its) = (n, b) # function_bodies its"
| "function_bodies (Function r n ps None # its) = function_bodies its"
| "function_bodies (Block_comment c # its) = function_bodies its"
| "function_bodies (Line_comment c # its) = function_bodies its"
| "function_bodies (Typedef_struct tag ms name # its) = function_bodies its"

text \<open>
  An item defines something when it is a type definition or a function with a body;
  a function declaration and a comment define nothing.
\<close>

fun is_definition :: "item \<Rightarrow> bool" where
  "is_definition (Typedef_struct tag ms name) = True"
| "is_definition (Function r n ps (Some b)) = True"
| "is_definition (Function r n ps None) = False"
| "is_definition (Block_comment c) = False"
| "is_definition (Line_comment c) = False"

text \<open>The struct behind a typedef name: its tag and the entries of its body.\<close>

fun typedef_struct :: "item list \<Rightarrow> string \<Rightarrow> (string \<times> member list) option" where
  "typedef_struct [] t = None"
| "typedef_struct (Typedef_struct tag ms name # its) t =
     (if name = t then Some (tag, ms) else typedef_struct its t)"
| "typedef_struct (Function r n ps b # its) t = typedef_struct its t"
| "typedef_struct (Block_comment c # its) t = typedef_struct its t"
| "typedef_struct (Line_comment c # its) t = typedef_struct its t"

text \<open>The entries of the body of the struct with a given tag.\<close>

fun struct_body :: "item list \<Rightarrow> string \<Rightarrow> member list option" where
  "struct_body [] s = None"
| "struct_body (Typedef_struct tag ms name # its) s =
     (if tag = s then Some ms else struct_body its s)"
| "struct_body (Function r n ps b # its) s = struct_body its s"
| "struct_body (Block_comment c # its) s = struct_body its s"
| "struct_body (Line_comment c # its) s = struct_body its s"

fun struct_fields :: "member list \<Rightarrow> (string \<times> ctype) list" where
  "struct_fields [] = []"
| "struct_fields (Field_member t n # ms) = (n, t) # struct_fields ms"
| "struct_fields (Empty_member # ms) = struct_fields ms"

subsection \<open>The grammar of a struct body in ISO C\<close>

text \<open>
  In C90 (6.5.2.1) and C99 (6.7.2.1) a struct body is a non-empty sequence of
  struct-declarations, and a struct-declaration is a specifier-qualifier-list, a
  struct-declarator-list and a semicolon. A semicolon alone is not one.
\<close>

fun iso_struct_declaration :: "member \<Rightarrow> bool" where
  "iso_struct_declaration (Field_member t n) = True"
| "iso_struct_declaration Empty_member = False"

definition iso_struct_body :: "member list \<Rightarrow> bool" where
  "iso_struct_body ms = (ms \<noteq> [] \<and> list_all iso_struct_declaration ms)"

subsection \<open>What a declaration asks of a call\<close>

text \<open>
  In C90 and C99 a declarator with empty parentheses, outside a function definition,
  says nothing about the number or the types of the parameters (C99 6.7.5.3), and a
  call through it is not checked against any parameter list (C99 6.5.2.2). A prototype
  fixes the number of arguments and asks that each argument can be assigned to its
  parameter; that relation between an argument type and a parameter type is the
  parameter \<open>assignable\<close> here.
\<close>

fun admits :: "(ctype \<Rightarrow> ctype \<Rightarrow> bool) \<Rightarrow> params \<Rightarrow> ctype list \<Rightarrow> bool" where
  "admits assignable Unspecified args = True"
| "admits assignable (Prototype ps) args = list_all2 assignable args (map fst ps)"

definition call_admitted ::
  "(ctype \<Rightarrow> ctype \<Rightarrow> bool) \<Rightarrow> item list \<Rightarrow> string \<Rightarrow> ctype list \<Rightarrow> bool" where
  "call_admitted assignable its f args =
     (case declared_signature its f of
        None \<Rightarrow> False
      | Some (r, ps) \<Rightarrow> admits assignable ps args)"

subsection \<open>Names and the groups of the header\<close>

fun starts_with :: "string \<Rightarrow> string \<Rightarrow> bool" where
  "starts_with [] s = True"
| "starts_with (p # ps) [] = False"
| "starts_with (p # ps) (c # cs) = (p = c \<and> starts_with ps cs)"

fun is_block_comment :: "item \<Rightarrow> bool" where
  "is_block_comment (Block_comment c) = True"
| "is_block_comment (Line_comment c) = False"
| "is_block_comment (Typedef_struct tag ms name) = False"
| "is_block_comment (Function r n ps b) = False"

text \<open>
  The header groups its declarations under block comments. A group is a block comment
  with the function names declared between it and the next block comment.
\<close>

fun groups :: "item list \<Rightarrow> (string list \<times> string list) list" where
  "groups [] = []"
| "groups (Block_comment c # its) =
     (c, function_symbols (takeWhile (\<lambda>i. \<not> is_block_comment i) its)) # groups its"
| "groups (Line_comment c # its) = groups its"
| "groups (Typedef_struct tag ms name # its) = groups its"
| "groups (Function r n ps b # its) = groups its"

definition group_of :: "item list \<Rightarrow> string list \<Rightarrow> string list" where
  "group_of its heading = (case map_of (groups its) heading of None \<Rightarrow> [] | Some ns \<Rightarrow> ns)"

text \<open>The prefix of a name: its characters up to the first underscore, with it.\<close>

definition symbol_prefix :: "string \<Rightarrow> string" where
  "symbol_prefix n = takeWhile (\<lambda>c. c \<noteq> CHR ''_'') n @ ''_''"

text \<open>The identifiers of a token sequence that an opening parenthesis follows.\<close>

fun names_before_paren :: "token list \<Rightarrow> string list" where
  "names_before_paren [] = []"
| "names_before_paren (Ident n # Punct c # ts) =
     (if c = CHR ''('' then n # names_before_paren ts else names_before_paren ts)"
| "names_before_paren (t # ts) = names_before_paren ts"

section \<open>Lines of the file\<close>

datatype line_kind = Blank_line | Comment_line | Declaration_line

fun is_code_token :: "token \<Rightarrow> bool" where
  "is_code_token (Ident w) = True"
| "is_code_token (Punct c) = True"
| "is_code_token (Comment b) = False"
| "is_code_token (Line_comment_text s) = False"
| "is_code_token Unterminated = False"

text \<open>
  A line that gives the scanner an identifier or a punctuation mark carries declaration
  text. Any other line is blank when the scanner is outside a comment before and after
  it and it closes no comment, and a comment line otherwise.
\<close>

definition line_kind_of :: "mode \<Rightarrow> mode \<Rightarrow> token list \<Rightarrow> line_kind" where
  "line_kind_of m m' ts =
     (if list_ex is_code_token ts then Declaration_line
      else if m = Code \<and> m' = Code \<and> ts = [] then Blank_line
      else Comment_line)"

fun line_kinds :: "mode \<Rightarrow> string list \<Rightarrow> line_kind list" where
  "line_kinds m [] = []"
| "line_kinds m (l # ls) =
     (case run m (l @ [newline]) of (m', ts) \<Rightarrow> line_kind_of m m' ts # line_kinds m' ls)"

text \<open>The keywords of C that direct control flow.\<close>

definition control_keywords :: "string list" where
  "control_keywords =
     [''if'', ''else'', ''switch'', ''case'', ''default'', ''while'', ''do'', ''for'',
      ''goto'', ''continue'', ''break'', ''return'']"

fun is_control_token :: "token \<Rightarrow> bool" where
  "is_control_token (Ident w) = List.member control_keywords w"
| "is_control_token (Punct c) = False"
| "is_control_token (Comment b) = False"
| "is_control_token (Line_comment_text s) = False"
| "is_control_token Unterminated = False"


section \<open>The table of declarations is what the text says\<close>

text \<open>
  Scanning the fifty lines of the file gives the same tokens, comments included, as
  writing out the table of declarations. So what is proved about the table below is
  proved about the text of the header.
\<close>

lemma header_tokens:
  "lex_lines Code wycc_lib_h_text = concat (map item_tokens wycc_lib_h)"
  by code_simp

lemma count_list_replicate_eq:
  "count_list (replicate n x) y = (if x = y then n else 0)"
  by (induction n) auto

lemma header_line_kinds:
  "line_kinds Code wycc_lib_h_text =
     replicate 23 Comment_line @ [Blank_line]
     @ replicate 6 Declaration_line @ [Blank_line]
     @ replicate 3 Comment_line
     @ [Declaration_line, Comment_line, Declaration_line, Declaration_line, Blank_line]
     @ replicate 3 Comment_line
     @ [Declaration_line, Declaration_line, Blank_line]
     @ replicate 5 Comment_line"
  by code_simp

text \<open>
  The scanner tells a declaration with a body from one without, and empty parentheses
  from \<^verbatim>\<open>(void)\<close>: the two ways of writing each give different tokens.
\<close>

lemma item_tokens_body_differs:
  "item_tokens (Function r n ps None) \<noteq> item_tokens (Function r n ps (Some b))"
  by simp

lemma params_tokens_void_differs:
  "params_tokens Unspecified \<noteq> params_tokens (Prototype [])"
  by simp

text \<open>The names with a declared signature are the function symbols, for any table.\<close>

lemma declared_signature_None_iff:
  "declared_signature its f = None \<longleftrightarrow> f \<notin> set (function_symbols its)"
proof (induction its)
  case Nil
  show ?case by simp
next
  case (Cons i its)
  then show ?case by (cases i) auto
qed

lemma dom_declared_signature:
  "dom (declared_signature its) = set (function_symbols its)"
  using declared_signature_None_iff [of its] by (auto simp: dom_def)

lemma function_symbols_append:
  "function_symbols (xs @ ys) = function_symbols xs @ function_symbols ys"
proof (induction xs)
  case Nil
  show ?case by simp
next
  case (Cons i xs)
  then show ?case by (cases i) simp_all
qed

lemma prototype_constrains_calls:
  "\<not> call_admitted assignable wycc_lib_h ''wycc_box_str'' []"
  by (simp add: call_admitted_def wycc_lib_h_def)

section \<open>The claims\<close>

text \<open>
  C1 (as amended). The header declares exactly five function symbols, \<^verbatim>\<open>wycc_main\<close>,
  \<^verbatim>\<open>wycc_deref_box\<close>, \<^verbatim>\<open>wycc_box_str\<close>, \<^verbatim>\<open>wyil_debug_str\<close> and
  \<^verbatim>\<open>wyil_debug_obj\<close>, each with the signature the spec gives it (an initialization
  entry point, a deref/unbox operation, a string boxer and two debug-printing hooks);
  no other function symbol is declared. The same five names are the identifiers of the
  text of the file that an opening parenthesis follows.
\<close>

theorem header_declares_five_functions:
  "function_symbols wycc_lib_h =
     [''wycc_main'', ''wycc_deref_box'', ''wycc_box_str'', ''wyil_debug_str'',
      ''wyil_debug_obj'']
   \<and> length (function_symbols wycc_lib_h) = 5
   \<and> map (declared_signature wycc_lib_h) (function_symbols wycc_lib_h) =
       [Some (C_void, Unspecified),
        Some (C_pointer (C_named ''wycc_obj''),
              Prototype [(C_pointer (C_named ''wycc_obj''), ''itm''), (C_int, ''flg'')]),
        Some (C_pointer (C_named ''wycc_obj''), Prototype [(C_pointer C_char, ''text'')]),
        Some (C_void, Prototype [(C_pointer C_char, ''mesg'')]),
        Some (C_void, Prototype [(C_pointer (C_named ''wycc_obj''), ''ptr'')])]
   \<and> dom (declared_signature wycc_lib_h) =
       {''wycc_main'', ''wycc_deref_box'', ''wycc_box_str'', ''wyil_debug_str'',
        ''wyil_debug_obj''}
   \<and> names_before_paren (lex_lines Code wycc_lib_h_text) = function_symbols wycc_lib_h"
proof -
  have symbols: "function_symbols wycc_lib_h =
      [''wycc_main'', ''wycc_deref_box'', ''wycc_box_str'', ''wyil_debug_str'',
       ''wyil_debug_obj'']"
    by (simp add: wycc_lib_h_def)
  have signatures: "map (declared_signature wycc_lib_h) (function_symbols wycc_lib_h) =
       [Some (C_void, Unspecified),
        Some (C_pointer (C_named ''wycc_obj''),
              Prototype [(C_pointer (C_named ''wycc_obj''), ''itm''), (C_int, ''flg'')]),
        Some (C_pointer (C_named ''wycc_obj''), Prototype [(C_pointer C_char, ''text'')]),
        Some (C_void, Prototype [(C_pointer C_char, ''mesg'')]),
        Some (C_void, Prototype [(C_pointer (C_named ''wycc_obj''), ''ptr'')])]"
    unfolding symbols by (simp add: wycc_lib_h_def)
  have declared: "dom (declared_signature wycc_lib_h) =
       {''wycc_main'', ''wycc_deref_box'', ''wycc_box_str'', ''wyil_debug_str'',
        ''wyil_debug_obj''}"
    unfolding dom_declared_signature symbols by simp
  have in_text: "names_before_paren (lex_lines Code wycc_lib_h_text) =
      [''wycc_main'', ''wycc_deref_box'', ''wycc_box_str'', ''wyil_debug_str'',
       ''wyil_debug_obj'']"
    unfolding header_tokens by (simp add: wycc_lib_h_def)
  from symbols signatures declared in_text show ?thesis by simp
qed

text \<open>
  C1 as the spec states it, with exactly four function symbols declared, does not hold:
  the number of function symbols the header declares is not four.
\<close>

theorem header_four_functions_counterexample:
  "length (function_symbols wycc_lib_h) \<noteq> 4"
  by (simp add: wycc_lib_h_def)

text \<open>
  C2. The type \<^verbatim>\<open>wycc_obj\<close> is a struct, \<^verbatim>\<open>struct Wycc_object\<close>, with exactly three
  fields, in this order:
  \<^verbatim>\<open>typ\<close>, an \<^verbatim>\<open>int\<close>; \<^verbatim>\<open>cnt\<close>, an \<^verbatim>\<open>int\<close>; and \<^verbatim>\<open>ptr\<close>,
  a \<^verbatim>\<open>void*\<close>. There is no other field.
\<close>

theorem wycc_obj_has_three_fields:
  "map_option fst (typedef_struct wycc_lib_h ''wycc_obj'') = Some ''Wycc_object''
   \<and> map_option (struct_fields \<circ> snd) (typedef_struct wycc_lib_h ''wycc_obj'') =
     Some [(''typ'', C_int), (''cnt'', C_int), (''ptr'', C_pointer C_void)]
   \<and> map_option (length \<circ> struct_fields \<circ> snd) (typedef_struct wycc_lib_h ''wycc_obj'') =
     Some 3"
  by (simp add: wycc_lib_h_def)

text \<open>
  C3. \<^verbatim>\<open>wycc_deref_box\<close> is declared with two parameters, a pointer to \<^verbatim>\<open>wycc_obj\<close>
  (the item) and an \<^verbatim>\<open>int\<close> flag, and returns a pointer to \<^verbatim>\<open>wycc_obj\<close>.
\<close>

theorem wycc_deref_box_signature:
  "declared_signature wycc_lib_h ''wycc_deref_box'' =
     Some (C_pointer (C_named ''wycc_obj''),
           Prototype [(C_pointer (C_named ''wycc_obj''), ''itm''), (C_int, ''flg'')])"
  by (simp add: wycc_lib_h_def)

text \<open>
  C4. \<^verbatim>\<open>wycc_box_str\<close> is declared with a single \<^verbatim>\<open>char*\<close> parameter and returns
  a pointer to \<^verbatim>\<open>wycc_obj\<close>.
\<close>

theorem wycc_box_str_signature:
  "declared_signature wycc_lib_h ''wycc_box_str'' =
     Some (C_pointer (C_named ''wycc_obj''), Prototype [(C_pointer C_char, ''text'')])"
  by (simp add: wycc_lib_h_def)

text \<open>
  C5. \<^verbatim>\<open>wyil_debug_str\<close> and \<^verbatim>\<open>wyil_debug_obj\<close> are both declared returning
  \<^verbatim>\<open>void\<close>; the first takes a \<^verbatim>\<open>char*\<close> message and the second a pointer to
  \<^verbatim>\<open>wycc_obj\<close>.
\<close>

theorem wyil_debug_signatures:
  "declared_signature wycc_lib_h ''wyil_debug_str'' =
     Some (C_void, Prototype [(C_pointer C_char, ''mesg'')])
   \<and> declared_signature wycc_lib_h ''wyil_debug_obj'' =
     Some (C_void, Prototype [(C_pointer (C_named ''wycc_obj''), ''ptr'')])"
  by (simp add: wycc_lib_h_def)

text \<open>
  C6. The file holds declarations only. No declared function has a body; the one item
  that defines anything is the typedef of the struct; and in the text of the file no
  token is a control-flow keyword and a single opening brace occurs, that of the struct.
\<close>

theorem header_is_declaration_only:
  "function_bodies wycc_lib_h = []
   \<and> filter is_definition wycc_lib_h =
       [Typedef_struct ''Wycc_object''
          [Empty_member, Field_member C_int ''typ'', Field_member C_int ''cnt'',
           Field_member (C_pointer C_void) ''ptr'']
          ''wycc_obj'']
   \<and> filter is_control_token (lex_lines Code wycc_lib_h_text) = []
   \<and> count_list (lex_lines Code wycc_lib_h_text) (Punct (CHR ''{'')) = 1"
  unfolding header_tokens by (simp add: wycc_lib_h_def control_keywords_def)

text \<open>
  C7 (as amended). The file has fifty lines, and most of them, not nearly all, are
  comments or boilerplate: thirty-nine lines, more than three quarters of the file, are
  comment lines (thirty-five) or blank lines (four), and eleven lines carry declaration
  text.
\<close>

theorem header_is_mostly_comments:
  "length wycc_lib_h_text = 50
   \<and> count_list (line_kinds Code wycc_lib_h_text) Declaration_line = 11
   \<and> count_list (line_kinds Code wycc_lib_h_text) Comment_line = 35
   \<and> count_list (line_kinds Code wycc_lib_h_text) Blank_line = 4
   \<and> 3 * length wycc_lib_h_text
       < 4 * (count_list (line_kinds Code wycc_lib_h_text) Comment_line
              + count_list (line_kinds Code wycc_lib_h_text) Blank_line)"
  unfolding header_line_kinds
  by (simp add: wycc_lib_h_text_def count_list_replicate_eq)

text \<open>
  C7 as the spec states it, with nearly all of the lines comments or boilerplate rather
  than declarations, does not hold: more than one line in five carries declaration
  text, so the comment lines and the blank lines together are fewer than four lines in
  five, and fewer than nine in ten.
\<close>

theorem header_nearly_all_comments_counterexample:
  "length wycc_lib_h_text
     < 5 * count_list (line_kinds Code wycc_lib_h_text) Declaration_line
   \<and> \<not> 4 * length wycc_lib_h_text
         \<le> 5 * (count_list (line_kinds Code wycc_lib_h_text) Comment_line
                + count_list (line_kinds Code wycc_lib_h_text) Blank_line)
   \<and> \<not> 9 * length wycc_lib_h_text
         \<le> 10 * (count_list (line_kinds Code wycc_lib_h_text) Comment_line
                 + count_list (line_kinds Code wycc_lib_h_text) Blank_line)"
  unfolding header_line_kinds
  by (simp add: wycc_lib_h_text_def count_list_replicate_eq)

text \<open>
  C8. \<^verbatim>\<open>wycc_main\<close> is declared returning \<^verbatim>\<open>void\<close> with empty parentheses, not
  \<^verbatim>\<open>(void)\<close>, so its declaration admits a call with any arguments, whatever their
  number and types.
\<close>

theorem wycc_main_unprototyped:
  "declared_signature wycc_lib_h ''wycc_main'' = Some (C_void, Unspecified)
   \<and> declared_signature wycc_lib_h ''wycc_main'' \<noteq> Some (C_void, Prototype [])
   \<and> call_admitted assignable wycc_lib_h ''wycc_main'' args"
  by (simp add: call_admitted_def wycc_lib_h_def)

text \<open>
  C9. The body of \<^verbatim>\<open>struct Wycc_object\<close> begins with an empty declaration, a lone
  semicolon, before its three fields, so the body is not a struct-declaration-list of
  ISO C90 or C99.
\<close>

theorem wycc_object_stray_semicolon:
  "struct_body wycc_lib_h ''Wycc_object'' =
     Some [Empty_member, Field_member C_int ''typ'', Field_member C_int ''cnt'',
           Field_member (C_pointer C_void) ''ptr'']
   \<and> map_option (take 1) (struct_body wycc_lib_h ''Wycc_object'') = Some [Empty_member]
   \<and> map_option iso_struct_body (struct_body wycc_lib_h ''Wycc_object'') = Some False"
  by (simp add: wycc_lib_h_def iso_struct_body_def)

text \<open>
  C10. The declared function symbols carry exactly two prefixes, \<^verbatim>\<open>wycc_\<close> and
  \<^verbatim>\<open>wyil_\<close>, and they follow the grouping of the header: the three names under the
  comment on the routines for structure and bookkeeping begin with \<^verbatim>\<open>wycc_\<close>, the two
  under the comment on the routines that implement wyil operations begin with
  \<^verbatim>\<open>wyil_\<close>, and every declared function symbol is in one of the two groups.
\<close>

theorem header_naming_discipline:
  "remdups (map symbol_prefix (function_symbols wycc_lib_h)) = [''wycc_'', ''wyil_'']
   \<and> group_of wycc_lib_h
        [[], '' * routines used by wycc for structure and bookkeeping'', '' '']
      = [''wycc_main'', ''wycc_deref_box'', ''wycc_box_str'']
   \<and> group_of wycc_lib_h [[], '' * routines to implement wyil operations'', '' '']
      = [''wyil_debug_str'', ''wyil_debug_obj'']
   \<and> list_all (starts_with ''wycc_'')
        (group_of wycc_lib_h
           [[], '' * routines used by wycc for structure and bookkeeping'', '' ''])
   \<and> list_all (starts_with ''wyil_'')
        (group_of wycc_lib_h [[], '' * routines to implement wyil operations'', '' ''])
   \<and> function_symbols wycc_lib_h =
        group_of wycc_lib_h
          [[], '' * routines used by wycc for structure and bookkeeping'', '' '']
        @ group_of wycc_lib_h [[], '' * routines to implement wyil operations'', '' '']"
  by (simp add: wycc_lib_h_def group_of_def symbol_prefix_def)

end
